theory Spec2Isabelle
  imports Complex_Main
begin

section \<open>Python values and exceptions\<close>

text \<open>
  The program (\<^verbatim>\<open>app.py\<close>) decodes the JSON body of an HTTP response. The
  values it handles are the ones Python's JSON decoder produces: \<^verbatim>\<open>None\<close>,
  booleans, integers, floats, strings, lists and dictionaries with string keys.
  A float is represented by the rational number it denotes; a dictionary by its
  association list, looked up with \<open>map_of\<close>.
\<close>

datatype pyval =
    PNone
  | PBool bool
  | PInt int
  | PFloat rat
  | PStr string
  | PList "pyval list"
  | PDict "(string \<times> pyval) list"

text \<open>The exceptions the modelled code can raise; all are subclasses of \<^verbatim>\<open>Exception\<close>.\<close>

datatype error =
    IndexError
  | KeyError
  | TypeError
  | AttributeError
  | JSONDecodeError
  | RequestException

text \<open>Sequencing of computations that may raise: the first exception wins.\<close>

definition bind_err :: "error + 'a \<Rightarrow> ('a \<Rightarrow> error + 'b) \<Rightarrow> error + 'b" where
  "bind_err m f = (case m of Inl e \<Rightarrow> Inl e | Inr x \<Rightarrow> f x)"

text \<open>Python's truth value of an object, as tested by \<^verbatim>\<open>if x\<close> and \<^verbatim>\<open>x and y\<close>.\<close>

fun truthy :: "pyval \<Rightarrow> bool" where
  "truthy PNone = False"
| "truthy (PBool b) = b"
| "truthy (PInt i) = (i \<noteq> 0)"
| "truthy (PFloat r) = (r \<noteq> 0)"
| "truthy (PStr s) = (s \<noteq> [])"
| "truthy (PList xs) = (xs \<noteq> [])"
| "truthy (PDict d) = (d \<noteq> [])"

text \<open>
  \<^verbatim>\<open>a[i]\<close> for a literal index \<open>i \<ge> 0\<close>. A list or a string is indexed by position
  and raises \<^verbatim>\<open>IndexError\<close> out of range; a dictionary decoded from JSON has
  string keys only, so an integer key raises \<^verbatim>\<open>KeyError\<close>; the other values are
  not subscriptable.
\<close>

fun getitem :: "pyval \<Rightarrow> nat \<Rightarrow> error + pyval" where
  "getitem (PList xs) i = (if i < length xs then Inr (xs ! i) else Inl IndexError)"
| "getitem (PStr s) i = (if i < length s then Inr (PStr [s ! i]) else Inl IndexError)"
| "getitem (PDict d) i = Inl KeyError"
| "getitem PNone i = Inl TypeError"
| "getitem (PBool b) i = Inl TypeError"
| "getitem (PInt n) i = Inl TypeError"
| "getitem (PFloat r) i = Inl TypeError"

text \<open>\<^verbatim>\<open>len(a)\<close>.\<close>

fun py_len :: "pyval \<Rightarrow> error + nat" where
  "py_len (PList xs) = Inr (length xs)"
| "py_len (PStr s) = Inr (length s)"
| "py_len (PDict d) = Inr (length d)"
| "py_len PNone = Inl TypeError"
| "py_len (PBool b) = Inl TypeError"
| "py_len (PInt n) = Inl TypeError"
| "py_len (PFloat r) = Inl TypeError"

section \<open>The State mapping\<close>

text \<open>
  \<^verbatim>\<open>class State\<close>: one aircraft observation, decoded from a positional array.
  Every attribute holds the Python value found at its index.
\<close>

record State =
  icao24 :: pyval
  callsign :: pyval
  origin_country :: pyval
  time_position :: pyval
  last_contact :: pyval
  longitude :: pyval
  latitude :: pyval
  geo_altitude :: pyval
  on_ground :: pyval
  velocity :: pyval
  true_track :: pyval
  vertical_rate :: pyval
  sensors :: pyval
  baro_altitude :: pyval
  squawk :: pyval
  spi :: pyval
  position_source :: pyval

text \<open>\<^verbatim>\<open>state_array[i] if len(state_array) > i else None\<close>\<close>

definition item_or_None :: "pyval \<Rightarrow> nat \<Rightarrow> error + pyval" where
  "item_or_None state_array i =
     bind_err (py_len state_array) (\<lambda>n. if n > i then getitem state_array i else Inr PNone)"

text \<open>
  \<^verbatim>\<open>State.__init__\<close>: the assignments of the constructor in their order. The
  first twelve read their index unguarded; the last five are guarded by the length.
\<close>

definition State_init :: "pyval \<Rightarrow> error + State" where
  "State_init state_array =
     bind_err (getitem state_array 0) (\<lambda>v0.
     bind_err (getitem state_array 1) (\<lambda>v1.
     bind_err (getitem state_array 2) (\<lambda>v2.
     bind_err (getitem state_array 3) (\<lambda>v3.
     bind_err (getitem state_array 4) (\<lambda>v4.
     bind_err (getitem state_array 5) (\<lambda>v5.
     bind_err (getitem state_array 6) (\<lambda>v6.
     bind_err (getitem state_array 7) (\<lambda>v7.
     bind_err (getitem state_array 8) (\<lambda>v8.
     bind_err (getitem state_array 9) (\<lambda>v9.
     bind_err (getitem state_array 10) (\<lambda>v10.
     bind_err (getitem state_array 11) (\<lambda>v11.
     bind_err (item_or_None state_array 12) (\<lambda>v12.
     bind_err (item_or_None state_array 13) (\<lambda>v13.
     bind_err (item_or_None state_array 14) (\<lambda>v14.
     bind_err (item_or_None state_array 15) (\<lambda>v15.
     bind_err (item_or_None state_array 16) (\<lambda>v16.
       Inr \<lparr> icao24 = v0, callsign = v1, origin_country = v2, time_position = v3,
             last_contact = v4, longitude = v5, latitude = v6, geo_altitude = v7,
             on_ground = v8, velocity = v9, true_track = v10, vertical_rate = v11,
             sensors = v12, baro_altitude = v13, squawk = v14, spi = v15,
             position_source = v16 \<rparr>)))))))))))))))))"

text \<open>The value stored for index \<open>i\<close> when the array is a list of sufficient length.\<close>

definition field_at :: "pyval list \<Rightarrow> nat \<Rightarrow> pyval" where
  "field_at xs i = (if i < length xs then xs ! i else PNone)"

definition State_of_list :: "pyval list \<Rightarrow> State" where
  "State_of_list xs =
     \<lparr> icao24 = xs ! 0, callsign = xs ! 1, origin_country = xs ! 2, time_position = xs ! 3,
       last_contact = xs ! 4, longitude = xs ! 5, latitude = xs ! 6, geo_altitude = xs ! 7,
       on_ground = xs ! 8, velocity = xs ! 9, true_track = xs ! 10, vertical_rate = xs ! 11,
       sensors = field_at xs 12, baro_altitude = field_at xs 13, squawk = field_at xs 14,
       spi = field_at xs 15, position_source = field_at xs 16 \<rparr>"

section \<open>The snapshot: StateVector\<close>

record StateVector =
  time :: pyval
  states :: "State list"

text \<open>
  \<^verbatim>\<open>d.get(key, default)\<close>: only a dictionary has the method; on any other decoded
  value the attribute lookup raises \<^verbatim>\<open>AttributeError\<close>.
\<close>

fun dict_get :: "pyval \<Rightarrow> string \<Rightarrow> pyval \<Rightarrow> error + pyval" where
  "dict_get (PDict d) k dflt = Inr (case map_of d k of None \<Rightarrow> dflt | Some v \<Rightarrow> v)"
| "dict_get PNone k dflt = Inl AttributeError"
| "dict_get (PBool b) k dflt = Inl AttributeError"
| "dict_get (PInt n) k dflt = Inl AttributeError"
| "dict_get (PFloat r) k dflt = Inl AttributeError"
| "dict_get (PStr s) k dflt = Inl AttributeError"
| "dict_get (PList xs) k dflt = Inl AttributeError"

text \<open>
  \<^verbatim>\<open>d[key]\<close> for a string key: a missing key of a dictionary raises
  \<^verbatim>\<open>KeyError\<close>; a list or a string takes integer indices only, and the other
  values are not subscriptable.
\<close>

definition dict_item :: "(string \<times> pyval) list \<Rightarrow> string \<Rightarrow> error + pyval" where
  "dict_item d k = (case map_of d k of None \<Rightarrow> Inl KeyError | Some v \<Rightarrow> Inr v)"

fun getitem_key :: "pyval \<Rightarrow> string \<Rightarrow> error + pyval" where
  "getitem_key (PDict d) k = dict_item d k"
| "getitem_key PNone k = Inl TypeError"
| "getitem_key (PBool b) k = Inl TypeError"
| "getitem_key (PInt n) k = Inl TypeError"
| "getitem_key (PFloat r) k = Inl TypeError"
| "getitem_key (PStr s) k = Inl TypeError"
| "getitem_key (PList xs) k = Inl TypeError"

text \<open>
  The values a \<^verbatim>\<open>for\<close> loop draws from an object: the elements of a list, the
  characters of a string, the keys of a dictionary; the other values are not
  iterable.
\<close>

fun py_iter :: "pyval \<Rightarrow> error + pyval list" where
  "py_iter (PList xs) = Inr xs"
| "py_iter (PStr s) = Inr (map (\<lambda>c. PStr [c]) s)"
| "py_iter (PDict d) = Inr (map (\<lambda>kv. PStr (fst kv)) d)"
| "py_iter PNone = Inl TypeError"
| "py_iter (PBool b) = Inl TypeError"
| "py_iter (PInt n) = Inl TypeError"
| "py_iter (PFloat r) = Inl TypeError"

text \<open>The loop \<^verbatim>\<open>for state in ...: self.states.append(State(state))\<close>.\<close>

fun State_each :: "pyval list \<Rightarrow> error + State list" where
  "State_each [] = Inr []"
| "State_each (x # xs) =
     bind_err (State_init x) (\<lambda>st. bind_err (State_each xs) (\<lambda>sts. Inr (st # sts)))"

text \<open>\<^verbatim>\<open>StateVector.__init__\<close>\<close>

definition StateVector_init :: "pyval \<Rightarrow> error + StateVector" where
  "StateVector_init states_json =
     bind_err (dict_get states_json ''time'' (PInt 0)) (\<lambda>t.
     bind_err (dict_get states_json ''states'' PNone) (\<lambda>present.
       if truthy present then
         bind_err (getitem_key states_json ''states'') (\<lambda>raw.
         bind_err (py_iter raw) (\<lambda>items.
         bind_err (State_each items) (\<lambda>sts.
           Inr \<lparr> time = t, states = sts \<rparr>)))
       else Inr \<lparr> time = t, states = [] \<rparr>))"

section \<open>The snapshot fetcher: OpenSkyApi\<close>

text \<open>
  \<^verbatim>\<open>OpenSkyApi.__init__\<close>. The credentials come from the environment
  (\<^verbatim>\<open>os.getenv\<close>): a string, or \<^verbatim>\<open>None\<close> when the variable is not set.
\<close>

record OpenSkyApi =
  auth :: "(string \<times> string) option"
  base_url :: string

definition OpenSkyApi_init :: "string option \<Rightarrow> string option \<Rightarrow> OpenSkyApi" where
  "OpenSkyApi_init username password =
     \<lparr> auth = (case username of
                 None \<Rightarrow> None
               | Some u \<Rightarrow> (case password of
                             None \<Rightarrow> None
                           | Some pw \<Rightarrow> if u \<noteq> [] \<and> pw \<noteq> [] then Some (u, pw) else None)),
       base_url = ''https://opensky-network.org/api'' \<rparr>"

text \<open>
  The arguments of \<^verbatim>\<open>requests.get\<close>, and what the call gives back: it raises
  (timeout, connection failure), or it returns a response with a status code and
  a body whose decoding by \<^verbatim>\<open>response.json()\<close> raises or yields a value. The
  network is a parameter of the model: a function from the request to this
  outcome. Console output (\<^verbatim>\<open>print\<close>) is not part of the model.
\<close>

record request =
  req_url :: string
  req_params :: "(string \<times> pyval) list"
  req_auth :: "(string \<times> string) option"
  req_headers :: "(string \<times> string) list"
  req_timeout :: nat

record response =
  status_code :: int
  json :: "error + pyval"

type_synonym bbox = "pyval \<times> pyval \<times> pyval \<times> pyval"

text \<open>
  The body of the \<^verbatim>\<open>try\<close> block of \<^verbatim>\<open>OpenSkyApi.get_states\<close>: the request and
  the three branches on the status code.
\<close>

definition get_states_try ::
  "(request \<Rightarrow> error + response) \<Rightarrow> request \<Rightarrow> error + StateVector option" where
  "get_states_try http req =
     bind_err (http req) (\<lambda>resp.
       if status_code resp = 200 then
         bind_err (json resp) (\<lambda>body.
         bind_err (StateVector_init body) (\<lambda>sv. Inr (Some sv)))
       else if status_code resp = 401 then Inr None
       else Inr None)"

text \<open>
  \<^verbatim>\<open>OpenSkyApi.get_states(time_secs, icao24, bbox)\<close> (the parameter
  \<^verbatim>\<open>icao24\<close> is \<open>icao24_arg\<close> here). \<open>now\<close> is the value of
  \<^verbatim>\<open>int(time.time())\<close>; a bounding box is a 4-tuple or \<^verbatim>\<open>None\<close>.
  \<open>states_request\<close> is the code before the \<^verbatim>\<open>try\<close> block together with the
  arguments of \<^verbatim>\<open>requests.get\<close>. The handler \<^verbatim>\<open>except Exception\<close> turns every
  exception of the \<^verbatim>\<open>try\<close> block into the result \<^verbatim>\<open>None\<close>.
\<close>

definition states_request :: "OpenSkyApi \<Rightarrow> int \<Rightarrow> int \<Rightarrow> pyval \<Rightarrow> bbox option \<Rightarrow> request" where
  "states_request self now time_secs icao24_arg bbox =
     (let params =
            [(''time'', PInt (if time_secs \<noteq> 0 then time_secs else now))]
            @ (if truthy icao24_arg then [(''icao24'', icao24_arg)] else [])
            @ (case bbox of
                 None \<Rightarrow> []
               | Some (b0, b1, b2, b3) \<Rightarrow>
                   [(''lamin'', b0), (''lamax'', b1), (''lomin'', b2), (''lomax'', b3)]);
          headers = [(''User-Agent'', ''Mozilla/5.0''), (''Accept'', ''application/json'')]
      in \<lparr> req_url = base_url self @ ''/states/all'', req_params = params,
           req_auth = auth self, req_headers = headers, req_timeout = 15 \<rparr>)"

definition OpenSkyApi_get_states ::
  "OpenSkyApi \<Rightarrow> int \<Rightarrow> (request \<Rightarrow> error + response) \<Rightarrow>
     int \<Rightarrow> pyval \<Rightarrow> bbox option \<Rightarrow> error + StateVector option" where
  "OpenSkyApi_get_states self now http time_secs icao24_arg bbox =
     (case get_states_try http (states_request self now time_secs icao24_arg bbox) of
        Inl e \<Rightarrow> Inr None
      | Inr r \<Rightarrow> Inr r)"

section \<open>The retry wrapper: get_states\<close>

text \<open>
  The wrapper calls \<^verbatim>\<open>api.get_states\<close> of the global client. Seen from the
  wrapper a call either raises or returns a snapshot or \<^verbatim>\<open>None\<close>; its outcome
  may differ from call to call. The fetcher is therefore a function of the
  bounding box passed and of the number of calls made before.
  The effects of the wrapper are recorded in a log: the argument of every call of
  the fetcher and the argument of every \<^verbatim>\<open>time.sleep\<close>, both in order.
\<close>

type_synonym fetcher = "bbox option \<Rightarrow> nat \<Rightarrow> error + StateVector option"

record io =
  fetch_calls :: "bbox option list"
  sleeps :: "nat list"

definition io_start :: io where
  "io_start = \<lparr> fetch_calls = [], sleeps = [] \<rparr>"

text \<open>The client of the program as a fetcher: call \<open>n\<close> sees clock \<open>clock n\<close> and network \<open>net n\<close>.\<close>

definition opensky_fetcher ::
  "OpenSkyApi \<Rightarrow> (nat \<Rightarrow> int) \<Rightarrow> (nat \<Rightarrow> request \<Rightarrow> error + response) \<Rightarrow> fetcher" where
  "opensky_fetcher self clock net bbox n =
     OpenSkyApi_get_states self (clock n) (net n) 0 PNone bbox"

text \<open>
  The argument the wrapper passes (lines 96 to 105): for a non-empty dictionary
  \<open>bounds\<close> the tuple of its four entries, read in the order \<^verbatim>\<open>lamin\<close>,
  \<^verbatim>\<open>lamax\<close>, \<^verbatim>\<open>lomin\<close>, \<^verbatim>\<open>lomax\<close> (a missing key raises \<^verbatim>\<open>KeyError\<close>);
  for \<^verbatim>\<open>None\<close> or an empty dictionary no bounding box.
\<close>

definition bbox_of :: "(string \<times> pyval) list option \<Rightarrow> error + bbox option" where
  "bbox_of bounds =
     (case bounds of
        None \<Rightarrow> Inr None
      | Some d \<Rightarrow>
          if d \<noteq> [] then
            bind_err (dict_item d ''lamin'') (\<lambda>b0.
            bind_err (dict_item d ''lamax'') (\<lambda>b1.
            bind_err (dict_item d ''lomin'') (\<lambda>b2.
            bind_err (dict_item d ''lomax'') (\<lambda>b3. Inr (Some (b0, b1, b2, b3))))))
          else Inr None)"

definition call_fetcher ::
  "fetcher \<Rightarrow> (string \<times> pyval) list option \<Rightarrow> io \<Rightarrow> (error + StateVector option) \<times> io" where
  "call_fetcher api bounds s =
     (case bbox_of bounds of
        Inl e \<Rightarrow> (Inl e, s)
      | Inr arg \<Rightarrow>
          (api arg (length (fetch_calls s)), s\<lparr>fetch_calls := fetch_calls s @ [arg]\<rparr>))"

text \<open>\<^verbatim>\<open>states and states.states\<close>: the record list to return, if the test succeeds.\<close>

definition found_states :: "StateVector option \<Rightarrow> State list option" where
  "found_states r =
     (case r of None \<Rightarrow> None | Some sv \<Rightarrow> if states sv \<noteq> [] then Some (states sv) else None)"

definition sleep :: "nat \<Rightarrow> io \<Rightarrow> io" where
  "sleep secs s = s\<lparr>sleeps := sleeps s @ [secs]\<rparr>"

text \<open>
  The loop \<^verbatim>\<open>for attempt in range(max_retries)\<close> from a given attempt on. The
  result \<open>Some sts\<close> stands for the dictionary \<^verbatim>\<open>{'states': sts}\<close>, \<open>None\<close> for
  \<^verbatim>\<open>None\<close>.
\<close>

function get_states_from ::
  "fetcher \<Rightarrow> (string \<times> pyval) list option \<Rightarrow> int \<Rightarrow> nat \<Rightarrow> io \<Rightarrow> State list option \<times> io" where
  "get_states_from api bounds max_retries attempt s =
     (if int attempt < max_retries then
        (case call_fetcher api bounds s of
           (Inr r, s1) \<Rightarrow>
             (case found_states r of
                Some sts \<Rightarrow> (Some sts, s1)
              | None \<Rightarrow>
                  if int attempt < max_retries - 1 then
                    get_states_from api bounds max_retries (Suc attempt)
                      (sleep (min (2 ^ attempt) 60) s1)
                  else (None, s1))
         | (Inl e, s1) \<Rightarrow>
             if int attempt < max_retries - 1 then
               get_states_from api bounds max_retries (Suc attempt) (sleep 5 s1)
             else (None, s1))
      else (None, s))"
  by pat_completeness auto
termination
  by (relation "measure (\<lambda>(api, bounds, max_retries, attempt, s). nat (max_retries - int attempt))")
     auto

definition get_states ::
  "fetcher \<Rightarrow> (string \<times> pyval) list option \<Rightarrow> int \<Rightarrow> io \<Rightarrow> State list option \<times> io" where
  "get_states api bounds max_retries s = get_states_from api bounds max_retries 0 s"

section \<open>The presentation builder: create_map\<close>

text \<open>
  \<^verbatim>\<open>numpy.mean\<close> of a flat list. Its result is a float: the mean of the numbers
  (a boolean counts as 0 or 1), or \<^verbatim>\<open>nan\<close> for the empty list, which numpy
  reports with a warning and not with an exception. The mean is the exact one;
  rounding of floating-point addition and the infinite floats are not modelled.
  An element that is not a number makes the model raise \<^verbatim>\<open>TypeError\<close>, as
  numpy does for strings; numpy's flattening of a nested list of numbers is not
  modelled either. The statements below use numbers and \<^verbatim>\<open>None\<close> only.
\<close>

datatype npfloat = Finite rat | NaN

fun as_number :: "pyval \<Rightarrow> error + rat" where
  "as_number (PBool b) = Inr (if b then 1 else 0)"
| "as_number (PInt i) = Inr (of_int i)"
| "as_number (PFloat r) = Inr r"
| "as_number PNone = Inl TypeError"
| "as_number (PStr s) = Inl TypeError"
| "as_number (PList xs) = Inl TypeError"
| "as_number (PDict d) = Inl TypeError"

fun as_numbers :: "pyval list \<Rightarrow> error + rat list" where
  "as_numbers [] = Inr []"
| "as_numbers (v # vs) =
     bind_err (as_number v) (\<lambda>r. bind_err (as_numbers vs) (\<lambda>rs. Inr (r # rs)))"

definition np_mean :: "pyval list \<Rightarrow> error + npfloat" where
  "np_mean vs =
     bind_err (as_numbers vs) (\<lambda>rs.
       Inr (if rs = [] then NaN else Finite (sum_list rs / of_nat (length rs))))"

text \<open>
  The format specification \<^verbatim>\<open>:.0f\<close>: the nearest integer in decimal digits, a tie
  going to the even neighbour, with the sign of the number (so \<^verbatim>\<open>-0\<close> for a small
  negative number); \<^verbatim>\<open>nan\<close> for not-a-number.
\<close>

fun show_nat :: "nat \<Rightarrow> string" where
  "show_nat n =
     (if n < 10 then [''0123456789'' ! n]
      else show_nat (n div 10) @ [''0123456789'' ! (n mod 10)])"

declare show_nat.simps [simp del]

definition round_half_even :: "rat \<Rightarrow> int" where
  "round_half_even r =
     (let f = \<lfloor>r\<rfloor>; d = r - of_int f
      in if d < 1 / 2 then f else if 1 / 2 < d then f + 1 else if even f then f else f + 1)"

fun format_0f :: "npfloat \<Rightarrow> string" where
  "format_0f NaN = ''nan''"
| "format_0f (Finite r) =
     (if r < 0 then ''-'' @ show_nat (nat (- round_half_even r))
      else show_nat (nat (round_half_even r)))"

text \<open>
  The members of a \<^verbatim>\<open>set\<close> are compared by value: equal numbers are one member
  whatever their type, and a list or a dictionary is unhashable.
\<close>

datatype hashkey = HNone | HNum rat | HStr string

fun py_hash :: "pyval \<Rightarrow> error + hashkey" where
  "py_hash PNone = Inr HNone"
| "py_hash (PBool b) = Inr (HNum (if b then 1 else 0))"
| "py_hash (PInt i) = Inr (HNum (of_int i))"
| "py_hash (PFloat r) = Inr (HNum r)"
| "py_hash (PStr s) = Inr (HStr s)"
| "py_hash (PList xs) = Inl TypeError"
| "py_hash (PDict d) = Inl TypeError"

fun py_hashes :: "pyval list \<Rightarrow> error + hashkey list" where
  "py_hashes [] = Inr []"
| "py_hashes (v # vs) =
     bind_err (py_hash v) (\<lambda>k. bind_err (py_hashes vs) (\<lambda>ks. Inr (k # ks)))"

text \<open>\<^verbatim>\<open>len(set(s.origin_country for s in states if s.origin_country))\<close>\<close>

definition count_countries :: "State list \<Rightarrow> error + nat" where
  "count_countries sts =
     bind_err (py_hashes (filter truthy (map origin_country sts))) (\<lambda>ks.
       Inr (length (remdups ks)))"

text \<open>
  What the loop of \<^verbatim>\<open>create_map\<close> hands to the map library for one record: the
  heat point \<^verbatim>\<open>[lat, lon, 1]\<close> and the marker. A marker is kept as the values
  the code puts in: its location, the four values interpolated into the popup
  text (callsign, altitude, velocity, origin) and the angle interpolated into
  the icon's \<^verbatim>\<open>rotate(...)\<close>. The rendering to HTML is the library's, and
  so is its check of the location: a coordinate that is not a number, which the
  library rejects, is outside the statements below.
\<close>

record marker =
  location :: "pyval \<times> pyval"
  popup_callsign :: pyval
  popup_altitude :: pyval
  popup_velocity :: pyval
  popup_origin :: pyval
  rotation :: pyval

definition marker_of :: "State \<Rightarrow> marker" where
  "marker_of st =
     \<lparr> location = (latitude st, longitude st),
       popup_callsign = (if truthy (callsign st) then callsign st else PStr ''N/A''),
       popup_altitude = (if truthy (geo_altitude st) then geo_altitude st else PStr ''N/A''),
       popup_velocity = (if truthy (velocity st) then velocity st else PStr ''N/A''),
       popup_origin = origin_country st,
       rotation = (if truthy (true_track st) then true_track st else PInt 0) \<rparr>"

text \<open>
  The loop \<^verbatim>\<open>for state in states\<close> (lines 227 to 255): the heat points and the
  markers it adds, in the order of the records.
\<close>

fun plot_states :: "State list \<Rightarrow> (pyval \<times> pyval \<times> int) list \<times> marker list" where
  "plot_states [] = ([], [])"
| "plot_states (st # sts) =
     (case plot_states sts of
        (heat_data, markers) \<Rightarrow>
          if truthy (latitude st) \<and> truthy (longitude st) then
            ((latitude st, longitude st, 1) # heat_data, marker_of st # markers)
          else (heat_data, markers))"

text \<open>
  \<^verbatim>\<open>create_monitoring_dashboard\<close>: an empty figure for no records; otherwise
  the figure is kept as the three series the code hands to the chart library.
\<close>

datatype figure = Figure_empty | Figure "pyval list" "pyval list" "pyval list"

definition create_monitoring_dashboard :: "State list \<Rightarrow> figure" where
  "create_monitoring_dashboard sts =
     (if sts = [] then Figure_empty
      else Figure (filter (\<lambda>v. v \<noteq> PNone) (map geo_altitude sts))
                  (filter (\<lambda>v. v \<noteq> PNone) (map velocity sts))
                  (filter truthy (map origin_country sts)))"

text \<open>
  The statistics text is kept as the values interpolated into its template:
  the two counts, the text of \<^verbatim>\<open>{avg_altitude:.0f}m\<close> and the time stamp.
\<close>

record statistics =
  total_aircraft :: nat
  countries :: nat
  average_altitude :: string
  last_updated :: string

datatype stats_text = No_data_available | Real_time_statistics statistics

record page =
  map_markers :: "marker list"
  map_heat :: "(pyval \<times> pyval \<times> int) list option"
  dashboard :: figure
  stats :: stats_text

text \<open>The region presets of \<^verbatim>\<open>create_map\<close> and \<^verbatim>\<open>bounds.get(region)\<close>.\<close>

definition region_bounds :: "(string \<times> (string \<times> pyval) list option) list" where
  "region_bounds =
     [(''world'', None),
      (''europe'', Some [(''lamin'', PFloat 35), (''lomin'', PFloat (- 15)),
                         (''lamax'', PFloat 60), (''lomax'', PFloat 40)]),
      (''north_america'', Some [(''lamin'', PFloat 25), (''lomin'', PFloat (- 130)),
                                (''lamax'', PFloat 50), (''lomax'', PFloat (- 60))]),
      (''asia'', Some [(''lamin'', PFloat 10), (''lomin'', PFloat 60),
                       (''lamax'', PFloat 50), (''lomax'', PFloat 150)])]"

definition bounds_get :: "string \<Rightarrow> (string \<times> pyval) list option" where
  "bounds_get region = (case map_of region_bounds region of None \<Rightarrow> None | Some b \<Rightarrow> b)"

text \<open>
  \<^verbatim>\<open>avg_altitude = np.mean([...]) if states else 0\<close>, formatted.
\<close>

definition avg_altitude :: "State list \<Rightarrow> error + npfloat" where
  "avg_altitude sts =
     (if sts \<noteq> [] then np_mean (filter (\<lambda>v. v \<noteq> PNone) (map geo_altitude sts))
      else Inr (Finite 0))"

text \<open>
  The part of \<^verbatim>\<open>create_map\<close> after the early return (lines 224 to 272);
  \<open>now_text\<close> is the formatted \<^verbatim>\<open>datetime.now()\<close>.
\<close>

definition render :: "string \<Rightarrow> State list \<Rightarrow> error + page" where
  "render now_text sts =
     (case plot_states sts of
        (heat_data, markers) \<Rightarrow>
          bind_err (count_countries sts) (\<lambda>n_countries.
          bind_err (avg_altitude sts) (\<lambda>avg.
            Inr \<lparr> map_markers = markers, map_heat = Some heat_data,
                  dashboard = create_monitoring_dashboard sts,
                  stats = Real_time_statistics
                    \<lparr> total_aircraft = length sts, countries = n_countries,
                      average_altitude = format_0f avg @ ''m'',
                      last_updated = now_text \<rparr> \<rparr>)))"

definition no_data_page :: page where
  "no_data_page =
     \<lparr> map_markers = [], map_heat = None, dashboard = create_monitoring_dashboard [],
       stats = No_data_available \<rparr>"

text \<open>\<^verbatim>\<open>create_map(region)\<close>; the wrapper is called with its default \<^verbatim>\<open>max_retries=3\<close>.\<close>

definition create_map :: "fetcher \<Rightarrow> string \<Rightarrow> string \<Rightarrow> io \<Rightarrow> (error + page) \<times> io" where
  "create_map api now_text region s =
     (case get_states api (bounds_get region) 3 s of
        (None, s1) \<Rightarrow> (Inr no_data_page, s1)
      | (Some sts, s1) \<Rightarrow>
          if sts = [] then (Inr no_data_page, s1) else (render now_text sts, s1))"

section \<open>Notions used in the statements\<close>

text \<open>
  An attempt of the wrapper fails when the call raised, returned \<^verbatim>\<open>None\<close> or
  returned a snapshot with an empty record list.
\<close>

definition failed :: "error + StateVector option \<Rightarrow> bool" where
  "failed r = (case r of Inl e \<Rightarrow> True | Inr x \<Rightarrow> found_states x = None)"

text \<open>The sleep that follows a failed attempt which is not the last one.\<close>

definition delay :: "error + StateVector option \<Rightarrow> nat \<Rightarrow> nat" where
  "delay r attempt = (case r of Inl e \<Rightarrow> 5 | Inr x \<Rightarrow> min (2 ^ attempt) 60)"

text \<open>
  A fetch result with the empty record list replaced by \<^verbatim>\<open>None\<close>; every other
  result (an exception, \<^verbatim>\<open>None\<close>, a non-empty record list) is left as it is.
\<close>

definition as_no_data :: "error + StateVector option \<Rightarrow> error + StateVector option" where
  "as_no_data r =
     (case r of
        Inl e \<Rightarrow> Inl e
      | Inr None \<Rightarrow> Inr None
      | Inr (Some sv) \<Rightarrow> if states sv = [] then Inr None else Inr (Some sv))"

section \<open>Concrete inputs\<close>

text \<open>A twelve-element array as the provider may send it (no extended fields).\<close>

definition twelve_fields :: "pyval list" where
  "twelve_fields =
     [PStr ''4b1814'', PStr ''SWR123  '', PStr ''Switzerland'', PInt 1700000000,
      PInt 1700000000, PFloat (171 / 20), PFloat (949 / 20), PFloat 10000, PBool False,
      PFloat (461 / 2), PFloat 90, PFloat 0]"

text \<open>A record with every attribute present.\<close>

definition sample_state :: State where
  "sample_state =
     \<lparr> icao24 = PStr ''4b1814'', callsign = PStr ''SWR123  '',
       origin_country = PStr ''Switzerland'', time_position = PInt 1700000000,
       last_contact = PInt 1700000000, longitude = PFloat (171 / 20),
       latitude = PFloat (949 / 20), geo_altitude = PFloat 10000,
       on_ground = PBool False, velocity = PFloat (461 / 2), true_track = PFloat 90,
       vertical_rate = PFloat 0, sensors = PNone, baro_altitude = PNone,
       squawk = PNone, spi = PNone, position_source = PNone \<rparr>"

text \<open>An aircraft over the equator: latitude 0.0, longitude 10.0, both reported.\<close>

definition equator_state :: State where
  "equator_state = sample_state\<lparr> latitude := PFloat 0, longitude := PFloat 10 \<rparr>"

text \<open>A record whose origin country is not reported.\<close>

definition no_origin_state :: State where
  "no_origin_state = sample_state\<lparr> origin_country := PNone \<rparr>"

text \<open>A record whose geometric altitude is not reported.\<close>

definition no_altitude_state :: State where
  "no_altitude_state = sample_state\<lparr> geo_altitude := PNone \<rparr>"

text \<open>Fetchers: one that always raises, one that always returns \<^verbatim>\<open>None\<close>.\<close>

definition raising_fetcher :: fetcher where
  "raising_fetcher bbox n = Inl RequestException"

definition no_data_fetcher :: fetcher where
  "no_data_fetcher bbox n = Inr None"

text \<open>
  A fetcher whose first call raises, whose second call returns \<^verbatim>\<open>None\<close> and
  whose later calls return one record.
\<close>

definition flaky_fetcher :: fetcher where
  "flaky_fetcher bbox n =
     (if n = 0 then Inl RequestException
      else if n = 1 then Inr None
      else Inr (Some \<lparr> time = PInt 1700000000, states = [sample_state] \<rparr>))"

text \<open>
  A fetcher whose first call returns a snapshot with an empty record list and
  whose later calls return one record.
\<close>

definition empty_first_fetcher :: fetcher where
  "empty_first_fetcher bbox n =
     (if n = 0 then Inr (Some \<lparr> time = PInt 1700000000, states = [] \<rparr>)
      else Inr (Some \<lparr> time = PInt 1700000010, states = [sample_state] \<rparr>))"

text \<open>A fetcher that always returns the given records.\<close>

definition fixed_fetcher :: "State list \<Rightarrow> fetcher" where
  "fixed_fetcher sts bbox n = Inr (Some \<lparr> time = PInt 1700000000, states = sts \<rparr>)"

text \<open>A network that answers every request with status 401 and a body that is not JSON.\<close>

definition http_401 :: "request \<Rightarrow> error + response" where
  "http_401 req = Inr \<lparr> status_code = 401, json = Inl JSONDecodeError \<rparr>"

text \<open>A network that answers every request with status 200 and one state vector.\<close>

definition http_200 :: "request \<Rightarrow> error + response" where
  "http_200 req =
     Inr \<lparr> status_code = 200,
           json = Inr (PDict [(''time'', PInt 1700000000),
                              (''states'', PList [PList twelve_fields])]) \<rparr>"

section \<open>Properties of the State mapping\<close>

declare get_states_from.simps [simp del]

lemma bind_err_Inr [simp]: "bind_err (Inr x) f = f x"
  by (simp add: bind_err_def)

lemma bind_err_Inl [simp]: "bind_err (Inl e) f = Inl e"
  by (simp add: bind_err_def)

lemma item_or_None_list: "item_or_None (PList xs) i = Inr (field_at xs i)"
  by (simp add: item_or_None_def field_at_def)

lemma State_init_list_ok:
  assumes "12 \<le> length xs"
  shows "State_init (PList xs) = Inr (State_of_list xs)"
  using assms by (auto simp: State_init_def State_of_list_def item_or_None_list)

lemma State_init_list_append:
  assumes "17 \<le> length xs"
  shows "State_init (PList (xs @ ys)) = State_init (PList xs)"
proof -
  have "State_of_list (xs @ ys) = State_of_list xs"
    using assms by (auto simp: State_of_list_def field_at_def nth_append)
  then show ?thesis
    using assms by (simp add: State_init_list_ok)
qed

text \<open>
  Claim C2, as the code has it: a raw state array (a list) with fewer than twelve
  elements makes the constructor raise \<^verbatim>\<open>IndexError\<close>. Indices 0 to 11 are the
  mandatory ones; index 12 is already guarded by the length.
\<close>

theorem State_init_fewer_than_12_raises:
  assumes "length xs < 12"
  shows "State_init (PList xs) = Inl IndexError"
  using assms by (simp add: State_init_def)

theorem State_init_fewer_than_12_raises_witness:
  "length [PStr ''4b1814'', PStr ''SWR123  '', PStr ''Switzerland''] < 12 \<and>
   State_init (PList [PStr ''4b1814'', PStr ''SWR123  '', PStr ''Switzerland'']) = Inl IndexError"
  using State_init_fewer_than_12_raises [of "[PStr ''4b1814'', PStr ''SWR123  '', PStr ''Switzerland'']"]
  by simp

text \<open>
  Claim C2 as the specification states it (every array shorter than 13 is rejected)
  fails for an array of exactly twelve elements: the constructor returns a record
  whose \<open>sensors\<close> and later fields are \<^verbatim>\<open>None\<close>.
\<close>

theorem State_init_length_12_accepted:
  "length twelve_fields < 13 \<and>
   State_init (PList twelve_fields) =
     Inr \<lparr> icao24 = PStr ''4b1814'', callsign = PStr ''SWR123  '',
           origin_country = PStr ''Switzerland'', time_position = PInt 1700000000,
           last_contact = PInt 1700000000, longitude = PFloat (171 / 20),
           latitude = PFloat (949 / 20), geo_altitude = PFloat 10000,
           on_ground = PBool False, velocity = PFloat (461 / 2), true_track = PFloat 90,
           vertical_rate = PFloat 0, sensors = PNone, baro_altitude = PNone,
           squawk = PNone, spi = PNone, position_source = PNone \<rparr>"
  by (simp add: twelve_fields_def State_init_def item_or_None_def)

text \<open>
  Claim C3: for a raw state array of 13 to 17 elements the constructor does not
  raise; the twelve mandatory fields and \<open>sensors\<close> hold the value at their index,
  and each of \<open>baro_altitude\<close>, \<open>squawk\<close>, \<open>spi\<close>, \<open>position_source\<close> holds the
  value at its index (13, 14, 15, 16) when the array reaches that index and
  \<^verbatim>\<open>None\<close> otherwise.
\<close>

theorem State_init_13_to_17:
  assumes "13 \<le> length xs" and "length xs \<le> 17"
  shows "\<exists>r. State_init (PList xs) = Inr r \<and>
           icao24 r = xs ! 0 \<and> callsign r = xs ! 1 \<and> origin_country r = xs ! 2 \<and>
           time_position r = xs ! 3 \<and> last_contact r = xs ! 4 \<and> longitude r = xs ! 5 \<and>
           latitude r = xs ! 6 \<and> geo_altitude r = xs ! 7 \<and> on_ground r = xs ! 8 \<and>
           velocity r = xs ! 9 \<and> true_track r = xs ! 10 \<and> vertical_rate r = xs ! 11 \<and>
           sensors r = xs ! 12 \<and>
           baro_altitude r = (if 13 < length xs then xs ! 13 else PNone) \<and>
           squawk r = (if 14 < length xs then xs ! 14 else PNone) \<and>
           spi r = (if 15 < length xs then xs ! 15 else PNone) \<and>
           position_source r = (if 16 < length xs then xs ! 16 else PNone)"
proof -
  from assms have "State_init (PList xs) = Inr (State_of_list xs)"
    by (simp add: State_init_list_ok)
  moreover from assms have "sensors (State_of_list xs) = xs ! 12"
    by (simp add: State_of_list_def field_at_def)
  ultimately show ?thesis
    by (simp add: State_of_list_def field_at_def)
qed

theorem State_init_13_to_17_witness:
  "13 \<le> length (twelve_fields @ [PNone, PFloat 9800]) \<and>
   length (twelve_fields @ [PNone, PFloat 9800]) \<le> 17 \<and>
   (\<exists>r. State_init (PList (twelve_fields @ [PNone, PFloat 9800])) = Inr r \<and>
        icao24 r = PStr ''4b1814'' \<and> sensors r = PNone \<and>
        baro_altitude r = PFloat 9800 \<and> squawk r = PNone \<and> spi r = PNone \<and>
        position_source r = PNone)"
proof -
  let ?w = "twelve_fields @ [PNone, PFloat 9800]"
  have len: "13 \<le> length ?w" "length ?w \<le> 17"
    by (simp_all add: twelve_fields_def)
  from State_init_13_to_17 [OF len] obtain r where
    "State_init (PList ?w) = Inr r" and "icao24 r = ?w ! 0" and "sensors r = ?w ! 12" and
    "baro_altitude r = (if 13 < length ?w then ?w ! 13 else PNone)" and
    "squawk r = (if 14 < length ?w then ?w ! 14 else PNone)" and
    "spi r = (if 15 < length ?w then ?w ! 15 else PNone)" and
    "position_source r = (if 16 < length ?w then ?w ! 16 else PNone)"
    by blast
  then have "State_init (PList ?w) = Inr r \<and>
        icao24 r = PStr ''4b1814'' \<and> sensors r = PNone \<and>
        baro_altitude r = PFloat 9800 \<and> squawk r = PNone \<and> spi r = PNone \<and>
        position_source r = PNone"
    by (simp add: twelve_fields_def)
  then show ?thesis
    using len by blast
qed

text \<open>
  Claim C10: the constructor reads indices 0 to 16 only. For every raw state array
  of at least twelve elements it returns a record, and that record is the one
  built from the first seventeen elements alone: whatever follows index 16 has
  no effect on any field.
\<close>

theorem State_init_reads_first_17:
  assumes "12 \<le> length xs"
  shows "\<exists>r. State_init (PList xs) = Inr r \<and> State_init (PList (take 17 xs)) = Inr r"
proof (cases "length xs \<le> 17")
  case True
  with assms show ?thesis
    by (simp add: State_init_list_ok)
next
  case False
  then have "State_init (PList (take 17 xs @ drop 17 xs)) = State_init (PList (take 17 xs))"
    by (intro State_init_list_append) simp
  moreover from False have "State_init (PList (take 17 xs)) = Inr (State_of_list (take 17 xs))"
    by (simp add: State_init_list_ok)
  ultimately show ?thesis
    by simp
qed

theorem State_init_reads_first_17_witness:
  "12 \<le> length (twelve_fields @ [PNone, PNone, PNone, PNone, PInt 0, PInt 7, PStr ''extra'']) \<and>
   (\<exists>r. State_init (PList (twelve_fields @ [PNone, PNone, PNone, PNone, PInt 0, PInt 7, PStr ''extra''])) = Inr r \<and>
        State_init (PList (twelve_fields @ [PNone, PNone, PNone, PNone, PInt 0])) = Inr r)"
proof -
  let ?w = "twelve_fields @ [PNone, PNone, PNone, PNone, PInt 0, PInt 7, PStr ''extra'']"
  have len: "12 \<le> length ?w"
    by (simp add: twelve_fields_def)
  have "take 17 ?w = twelve_fields @ [PNone, PNone, PNone, PNone, PInt 0]"
    by (simp add: twelve_fields_def)
  with State_init_reads_first_17 [OF len] len show ?thesis
    by simp
qed

section \<open>Properties of the retry wrapper\<close>

lemma call_fetcher_ok:
  "bbox_of bounds = Inr arg \<Longrightarrow>
   call_fetcher api bounds s =
     (api arg (length (fetch_calls s)), s\<lparr>fetch_calls := fetch_calls s @ [arg]\<rparr>)"
  by (simp add: call_fetcher_def)

lemma failed_step:
  assumes "bbox_of bounds = Inr arg" and "failed (api arg (length (fetch_calls s)))"
    and "int attempt < max_retries - 1"
  shows "get_states_from api bounds max_retries attempt s =
         get_states_from api bounds max_retries (Suc attempt)
           (sleep (delay (api arg (length (fetch_calls s))) attempt)
              (s\<lparr>fetch_calls := fetch_calls s @ [arg]\<rparr>))"
  using assms
  by (subst get_states_from.simps)
     (auto simp: call_fetcher_ok failed_def delay_def split: sum.splits option.splits)

lemma failed_last:
  assumes "bbox_of bounds = Inr arg" and "failed (api arg (length (fetch_calls s)))"
    and "int attempt < max_retries" and "\<not> int attempt < max_retries - 1"
  shows "get_states_from api bounds max_retries attempt s =
         (None, s\<lparr>fetch_calls := fetch_calls s @ [arg]\<rparr>)"
  using assms
  by (subst get_states_from.simps)
     (auto simp: call_fetcher_ok failed_def split: sum.splits option.splits)

lemma found_step:
  assumes "bbox_of bounds = Inr arg" and "api arg (length (fetch_calls s)) = Inr r"
    and "found_states r = Some sts" and "int attempt < max_retries"
  shows "get_states_from api bounds max_retries attempt s =
         (Some sts, s\<lparr>fetch_calls := fetch_calls s @ [arg]\<rparr>)"
  using assms
  by (subst get_states_from.simps) (simp add: call_fetcher_ok)

lemma failed_steps:
  assumes bb: "bbox_of bounds = Inr arg"
    and len: "length (fetch_calls s) = a"
  shows "(\<forall>j. a \<le> j \<and> j < a + k \<longrightarrow> failed (api arg j)) \<Longrightarrow> int (a + k) < max_retries \<Longrightarrow>
         get_states_from api bounds max_retries a s =
         get_states_from api bounds max_retries (a + k)
           (s\<lparr> fetch_calls := fetch_calls s @ replicate k arg,
               sleeps := sleeps s @ map (\<lambda>j. delay (api arg j) j) [a..<a + k] \<rparr>)"
proof (induction k)
  case 0
  show ?case by simp
next
  case (Suc k)
  let ?sk = "s\<lparr> fetch_calls := fetch_calls s @ replicate k arg,
             sleeps := sleeps s @ map (\<lambda>j. delay (api arg j) j) [a..<a + k] \<rparr>"
  have "get_states_from api bounds max_retries a s =
        get_states_from api bounds max_retries (a + k) ?sk"
    using Suc by simp
  also have "\<dots> = get_states_from api bounds max_retries (Suc (a + k))
           (sleep (delay (api arg (length (fetch_calls ?sk))) (a + k))
              (?sk\<lparr>fetch_calls := fetch_calls ?sk @ [arg]\<rparr>))"
    using Suc.prems len by (intro failed_step [OF bb]) auto
  also have "(sleep (delay (api arg (length (fetch_calls ?sk))) (a + k))
              (?sk\<lparr>fetch_calls := fetch_calls ?sk @ [arg]\<rparr>)) =
      s\<lparr> fetch_calls := fetch_calls s @ replicate (Suc k) arg,
             sleeps := sleeps s @ map (\<lambda>j. delay (api arg j) j) [a..<a + Suc k] \<rparr>"
    using len by (simp add: sleep_def replicate_append_same)
  finally show ?case by simp
qed

lemma logs_grow:
  assumes bb: "bbox_of bounds = Inr arg"
  shows "nat (max_retries - int attempt) = d \<Longrightarrow>
         \<exists>n ext. fetch_calls (snd (get_states_from api bounds max_retries attempt s)) =
                  fetch_calls s @ replicate n arg \<and>
                sleeps (snd (get_states_from api bounds max_retries attempt s)) = sleeps s @ ext \<and>
                (0 < d \<longrightarrow> 0 < n) \<and> n \<le> d"
proof (induction d arbitrary: attempt s)
  case 0
  then have "get_states_from api bounds max_retries attempt s = (None, s)"
    by (subst get_states_from.simps) simp
  then show ?case by simp
next
  case (Suc d)
  let ?r = "api arg (length (fetch_calls s))"
  let ?s1 = "s\<lparr>fetch_calls := fetch_calls s @ [arg]\<rparr>"
  from Suc.prems have lt: "int attempt < max_retries" by linarith
  consider (found) r sts where "?r = Inr r" "found_states r = Some sts"
    | (last) "failed ?r" "\<not> int attempt < max_retries - 1"
    | (retry) "failed ?r" "int attempt < max_retries - 1"
    by (cases ?r; cases "int attempt < max_retries - 1") (auto simp: failed_def)
  then show ?case
  proof cases
    case found
    then have "get_states_from api bounds max_retries attempt s = (Some sts, ?s1)"
      using lt by (intro found_step [OF bb]) auto
    then show ?thesis
      by (auto intro!: exI [of _ 1] exI [of _ "[]"])
  next
    case last
    then have "get_states_from api bounds max_retries attempt s = (None, ?s1)"
      using lt by (intro failed_last [OF bb]) auto
    then show ?thesis
      by (auto intro!: exI [of _ 1] exI [of _ "[]"])
  next
    case retry
    let ?s2 = "sleep (delay ?r attempt) ?s1"
    have eq: "get_states_from api bounds max_retries attempt s =
          get_states_from api bounds max_retries (Suc attempt) ?s2"
      using retry by (intro failed_step [OF bb]) auto
    from Suc.prems have "nat (max_retries - int (Suc attempt)) = d" by simp
    from Suc.IH [OF this, of ?s2] obtain n ext where
      n: "fetch_calls (snd (get_states_from api bounds max_retries (Suc attempt) ?s2)) =
            fetch_calls ?s2 @ replicate n arg"
        "sleeps (snd (get_states_from api bounds max_retries (Suc attempt) ?s2)) = sleeps ?s2 @ ext"
        "n \<le> d"
      by blast
    have "fetch_calls ?s2 @ replicate n arg = fetch_calls s @ replicate (Suc n) arg"
      by (simp add: sleep_def)
    moreover have "sleeps ?s2 @ ext = sleeps s @ (delay ?r attempt # ext)"
      by (simp add: sleep_def)
    ultimately show ?thesis
      using n eq by (intro exI [of _ "Suc n"] exI [of _ "delay ?r attempt # ext"]) simp
  qed
qed


lemma bbox_of_None: "bbox_of None = Inr None"
  by (simp add: bbox_of_def)

text \<open>
  Claim C1 as the specification states it (the sleep after a failed attempt is
  \<open>min (2 ^ attempt) 60\<close> also when the fetcher raised) fails: with a fetcher
  that raises on every call and \<^verbatim>\<open>max_retries=3\<close> the wrapper sleeps 5 seconds
  after attempt 0 and 5 seconds after attempt 1, where the formula gives 1 and 2.
\<close>

theorem raising_fetcher_sleeps_5:
  "sleeps (snd (get_states raising_fetcher None 3 io_start)) = [5, 5] \<and>
   sleeps (snd (get_states raising_fetcher None 3 io_start)) ! 0 \<noteq> min (2 ^ 0) 60"
  by (simp add: get_states_def get_states_from.simps call_fetcher_def bbox_of_def
      raising_fetcher_def io_start_def sleep_def)

lemma sleeps_of_failed_attempts:
  assumes bb: "bbox_of bounds = Inr arg"
    and fail: "\<forall>j\<le>i. failed (api arg j)"
    and nonfinal: "int i < max_retries - 1"
  shows "\<exists>ext. sleeps (snd (get_states api bounds max_retries io_start)) =
           map (\<lambda>j. delay (api arg j) j) [0..<Suc i] @ ext"
proof -
  let ?si = "io_start\<lparr> fetch_calls := fetch_calls io_start @ replicate (Suc i) arg,
               sleeps := sleeps io_start @ map (\<lambda>j. delay (api arg j) j) [0..<0 + Suc i] \<rparr>"
  have "length (fetch_calls io_start) = 0"
    by (simp add: io_start_def)
  from failed_steps [OF bb this, where k = "Suc i" and api = api and max_retries = max_retries] fail nonfinal
  have eq: "get_states api bounds max_retries io_start =
        get_states_from api bounds max_retries (Suc i) ?si"
    by (simp add: get_states_def)
  from logs_grow [OF bb refl, where max_retries = max_retries and attempt = "Suc i" and api = api and s = ?si] obtain ext where
    "sleeps (snd (get_states_from api bounds max_retries (Suc i) ?si)) = sleeps ?si @ ext"
    by blast
  with eq have "sleeps (snd (get_states api bounds max_retries io_start)) =
      map (\<lambda>j. delay (api arg j) j) [0..<Suc i] @ ext"
    by (simp add: io_start_def)
  then show ?thesis ..
qed

text \<open>
  The fixed sleep is also what a caller of the wrapper gets for a bounds
  dictionary that lacks one of the four keys: every attempt raises
  \<^verbatim>\<open>KeyError\<close> before the fetcher is called.
\<close>

lemma missing_key_sleeps_5:
  assumes "bbox_of bounds = Inl e"
  shows "get_states api bounds 3 io_start = (None, \<lparr> fetch_calls = [], sleeps = [5, 5] \<rparr>)"
  using assms
  by (simp add: get_states_def get_states_from.simps call_fetcher_def sleep_def io_start_def)

lemma bbox_of_missing_key: "bbox_of (Some [(''lamin'', PFloat 35)]) = Inl KeyError"
  by (simp add: bbox_of_def dict_item_def)

text \<open>
  Claim C1, as the code has it. Let the bounds be \<^verbatim>\<open>None\<close> or a dictionary with
  the four keys, let the attempts 0 to \<open>i\<close> all fail and let attempt \<open>i\<close> not be
  the last one (\<open>i < max_retries - 1\<close>). Then the wrapper sleeps after attempt
  \<open>i\<close>, and the sleep (entry \<open>i\<close> of the log, 0-based) is
  \<open>min (2 ^ i) 60\<close> seconds when the fetcher returned (\<^verbatim>\<open>None\<close> or an empty
  record list) and 5 seconds when it raised.
\<close>

theorem backoff_per_failed_attempt:
  assumes "bbox_of bounds = Inr arg"
    and "\<forall>j\<le>i. failed (api arg j)"
    and "int i < max_retries - 1"
  shows "i < length (sleeps (snd (get_states api bounds max_retries io_start))) \<and>
         sleeps (snd (get_states api bounds max_retries io_start)) ! i =
           (case api arg i of Inl e \<Rightarrow> 5 | Inr r \<Rightarrow> min (2 ^ i) 60)"
proof -
  let ?log = "sleeps (snd (get_states api bounds max_retries io_start))"
  from sleeps_of_failed_attempts [where api = api and i = i, OF assms]
  obtain ext where log: "?log = map (\<lambda>j. delay (api arg j) j) [0..<Suc i] @ ext"
    by blast
  then have "i < length ?log"
    by simp
  moreover have "(map (\<lambda>j. delay (api arg j) j) [0..<Suc i] @ ext) ! i = delay (api arg i) i"
    by (simp add: nth_append)
  with log have "?log ! i = (case api arg i of Inl e \<Rightarrow> 5 | Inr r \<Rightarrow> min (2 ^ i) 60)"
    by (simp add: delay_def)
  ultimately show ?thesis
    by simp
qed

text \<open>
  Claim C8: with a fetcher that returns \<^verbatim>\<open>None\<close> on every call (and bounds that
  are \<^verbatim>\<open>None\<close> or have the four keys) the wrapper calls the fetcher exactly
  \<open>max_retries\<close> times, sleeps \<open>min (2 ^ i) 60\<close> seconds after attempt \<open>i\<close> for
  every attempt but the last, that is 1, 2, 4, ... capped at 60, and returns
  \<^verbatim>\<open>None\<close>.
\<close>

theorem always_no_data:
  assumes bb: "bbox_of bounds = Inr arg"
    and nodata: "\<forall>b n. api b n = Inr None"
  shows "get_states api bounds max_retries io_start =
           (None, \<lparr> fetch_calls = replicate (nat max_retries) arg,
                    sleeps = map (\<lambda>i. min (2 ^ i) 60) [0..<nat max_retries - 1] \<rparr>)"
proof (cases "0 < max_retries")
  case False
  then show ?thesis
    by (simp add: get_states_def get_states_from.simps io_start_def)
next
  case True
  define k where "k = nat max_retries - 1"
  let ?sk = "io_start\<lparr> fetch_calls := fetch_calls io_start @ replicate k arg,
               sleeps := sleeps io_start @ map (\<lambda>j. delay (api arg j) j) [0..<0 + k] \<rparr>"
  have f: "failed (api b n)" for b n
    using nodata by (simp add: failed_def found_states_def)
  have len: "length (fetch_calls io_start) = 0"
    by (simp add: io_start_def)
  from True have "int (0 + k) < max_retries"
    by (simp add: k_def)
  with failed_steps [OF bb len, where k = k and api = api and max_retries = max_retries] f
  have "get_states api bounds max_retries io_start = get_states_from api bounds max_retries k ?sk"
    by (simp add: get_states_def)
  also have "\<dots> = (None, ?sk\<lparr>fetch_calls := fetch_calls ?sk @ [arg]\<rparr>)"
    using True f by (intro failed_last [OF bb]) (auto simp: k_def)
  also have "?sk\<lparr>fetch_calls := fetch_calls ?sk @ [arg]\<rparr> =
      \<lparr> fetch_calls = replicate (Suc k) arg, sleeps = map (\<lambda>i. min (2 ^ i) 60) [0..<k] \<rparr>"
    using nodata by (simp add: io_start_def delay_def replicate_append_same)
  finally show ?thesis
    using True by (simp add: k_def)
qed

theorem always_no_data_witness:
  "get_states no_data_fetcher None 8 io_start =
     (None, \<lparr> fetch_calls = replicate 8 None, sleeps = [1, 2, 4, 8, 16, 32, 60] \<rparr>)"
proof -
  have "\<forall>b n. no_data_fetcher b n = Inr None"
    by (simp add: no_data_fetcher_def)
  from always_no_data [OF bbox_of_None this, where max_retries = 8]
  have "get_states no_data_fetcher None 8 io_start =
     (None, \<lparr> fetch_calls = replicate 8 None, sleeps = map (\<lambda>i. min (2 ^ i) 60) [0..<7] \<rparr>)"
    by simp
  moreover have "map (\<lambda>i. min (2 ^ i) 60) [0..<7] = [1, 2, 4, 8, 16, 32, 60::nat]"
    by (simp add: upt_rec)
  ultimately show ?thesis by simp
qed

lemma empty_then_data_run:
  assumes bb: "bbox_of bounds = Inr arg"
    and first: "api arg 0 = Inr (Some sv0)" "states sv0 = []"
    and second: "api arg 1 = Inr (Some sv1)" "states sv1 \<noteq> []"
    and retries: "2 \<le> max_retries"
  shows "get_states api bounds max_retries io_start =
           (Some (states sv1), \<lparr> fetch_calls = [arg, arg], sleeps = [1] \<rparr>)"
proof -
  let ?s0 = "io_start\<lparr>fetch_calls := fetch_calls io_start @ [arg]\<rparr>"
  let ?s1 = "sleep (delay (api arg (length (fetch_calls io_start))) 0) ?s0"
  have "failed (api arg (length (fetch_calls io_start)))"
    using first by (simp add: io_start_def failed_def found_states_def)
  then have "get_states api bounds max_retries io_start =
      get_states_from api bounds max_retries (Suc 0) ?s1"
    unfolding get_states_def using retries by (intro failed_step [OF bb]) auto
  also have "\<dots> = (Some (states sv1), ?s1\<lparr>fetch_calls := fetch_calls ?s1 @ [arg]\<rparr>)"
    using second retries
    by (intro found_step [OF bb, where r = "Some sv1"])
       (auto simp: io_start_def sleep_def found_states_def)
  also have "?s1\<lparr>fetch_calls := fetch_calls ?s1 @ [arg]\<rparr> =
      \<lparr> fetch_calls = [arg, arg], sleeps = [1] \<rparr>"
    using first by (simp add: io_start_def sleep_def delay_def)
  finally show ?thesis .
qed


theorem backoff_per_failed_attempt_witness:
  "bbox_of None = Inr None \<and> failed (flaky_fetcher None 0) \<and> failed (flaky_fetcher None 1) \<and>
   int 0 < 3 - 1 \<and> int 1 < 3 - 1 \<and>
   sleeps (snd (get_states flaky_fetcher None 3 io_start)) ! 0 = 5 \<and>
   sleeps (snd (get_states flaky_fetcher None 3 io_start)) ! 1 = 2"
proof -
  have f: "failed (flaky_fetcher None 0)" "failed (flaky_fetcher None 1)"
    by (simp_all add: flaky_fetcher_def failed_def found_states_def)
  then have "\<forall>j\<le>0. failed (flaky_fetcher None j)" and "\<forall>j\<le>1. failed (flaky_fetcher None j)"
    by (simp_all add: le_Suc_eq)
  from backoff_per_failed_attempt
      [where api = flaky_fetcher and i = 0 and max_retries = 3, OF bbox_of_None this(1)]
    backoff_per_failed_attempt
      [where api = flaky_fetcher and i = 1 and max_retries = 3, OF bbox_of_None this(2)]
  show ?thesis
    using f by (simp add: bbox_of_None flaky_fetcher_def)
qed

lemma found_states_as_no_data:
  "as_no_data r = Inl e \<longleftrightarrow> r = Inl e"
  "r = Inr x \<Longrightarrow> \<exists>y. as_no_data r = Inr y \<and> found_states y = found_states x"
  by (auto simp: as_no_data_def found_states_def split: sum.splits option.splits)

lemma empty_like_no_data_from:
  "nat (max_retries - int attempt) = d \<Longrightarrow>
   get_states_from api bounds max_retries attempt s =
   get_states_from (\<lambda>b n. as_no_data (api b n)) bounds max_retries attempt s"
proof (induction d arbitrary: attempt s)
  case 0
  then show ?case
    by (simp add: get_states_from.simps [of _ bounds max_retries attempt s])
next
  case (Suc d)
  then have IH: "get_states_from api bounds max_retries (Suc attempt) s' =
      get_states_from (\<lambda>b n. as_no_data (api b n)) bounds max_retries (Suc attempt) s'" for s'
    by simp
  show ?case
  proof (cases "bbox_of bounds")
    case (Inl e)
    then show ?thesis
      by (simp add: get_states_from.simps [of _ bounds max_retries attempt s] call_fetcher_def IH)
  next
    case (Inr arg)
    show ?thesis
    proof (cases "api arg (length (fetch_calls s))")
      case (Inl e)
      with Inr show ?thesis
        by (simp add: get_states_from.simps [of _ bounds max_retries attempt s] call_fetcher_def
            IH as_no_data_def)
    next
      case r: (Inr x)
      from found_states_as_no_data(2) [OF r] obtain y where
        "as_no_data (api arg (length (fetch_calls s))) = Inr y" "found_states y = found_states x"
        by blast
      with Inr r show ?thesis
        by (simp add: get_states_from.simps [of _ bounds max_retries attempt s] call_fetcher_def
            IH split: option.splits)
    qed
  qed
qed


text \<open>
  Claim C4: a snapshot whose record list is empty is not a success; the wrapper
  treats it like any other failed attempt. At every attempt (for bounds that
  are \<^verbatim>\<open>None\<close> or have the four keys):
  \<^item> if the call returns an empty record list and the attempt is not the last
    one, the wrapper sleeps \<open>min (2 ^ attempt) 60\<close> seconds and goes on with the
    next attempt;
  \<^item> if the call returns an empty record list at the last attempt, the wrapper
    returns \<^verbatim>\<open>None\<close>;
  \<^item> the result and the log of the wrapper are the ones it has for the fetcher
    that returns \<^verbatim>\<open>None\<close> wherever the given one returns an empty record list;
  \<^item> in particular, when the first call returns an empty record list and the
    second call a non-empty one (and at least two attempts are allowed, as with
    the default \<^verbatim>\<open>max_retries=3\<close>), exactly two calls are made, with a sleep
    of 1 second between them, and the records of the second call are returned.
\<close>

theorem empty_list_is_retried:
  assumes bb: "bbox_of bounds = Inr arg"
  shows
    "(\<forall>attempt s sv.
        api arg (length (fetch_calls s)) = Inr (Some sv) \<and> states sv = [] \<and>
        int attempt < max_retries - 1 \<longrightarrow>
        get_states_from api bounds max_retries attempt s =
        get_states_from api bounds max_retries (Suc attempt)
          (sleep (min (2 ^ attempt) 60) (s\<lparr>fetch_calls := fetch_calls s @ [arg]\<rparr>))) \<and>
     (\<forall>attempt s sv.
        api arg (length (fetch_calls s)) = Inr (Some sv) \<and> states sv = [] \<and>
        int attempt < max_retries \<and> \<not> int attempt < max_retries - 1 \<longrightarrow>
        get_states_from api bounds max_retries attempt s =
        (None, s\<lparr>fetch_calls := fetch_calls s @ [arg]\<rparr>)) \<and>
     (\<forall>s. get_states api bounds max_retries s =
          get_states (\<lambda>b n. as_no_data (api b n)) bounds max_retries s) \<and>
     (\<forall>sv0 sv1.
        api arg 0 = Inr (Some sv0) \<and> states sv0 = [] \<and>
        api arg 1 = Inr (Some sv1) \<and> states sv1 \<noteq> [] \<and> 2 \<le> max_retries \<longrightarrow>
        get_states api bounds max_retries io_start =
          (Some (states sv1), \<lparr> fetch_calls = [arg, arg], sleeps = [1] \<rparr>))"
proof (intro conjI allI impI)
  fix attempt and s :: io and sv
  assume h: "api arg (length (fetch_calls s)) = Inr (Some sv) \<and> states sv = [] \<and>
        int attempt < max_retries - 1"
  then have "failed (api arg (length (fetch_calls s)))"
    by (simp add: failed_def found_states_def)
  from failed_step [where api = api and s = s and attempt = attempt and max_retries = max_retries,
      OF bb this] h
  show "get_states_from api bounds max_retries attempt s =
        get_states_from api bounds max_retries (Suc attempt)
          (sleep (min (2 ^ attempt) 60) (s\<lparr>fetch_calls := fetch_calls s @ [arg]\<rparr>))"
    by (simp add: delay_def)
next
  fix attempt and s :: io and sv
  assume h: "api arg (length (fetch_calls s)) = Inr (Some sv) \<and> states sv = [] \<and>
        int attempt < max_retries \<and> \<not> int attempt < max_retries - 1"
  then have "failed (api arg (length (fetch_calls s)))"
    by (simp add: failed_def found_states_def)
  from failed_last [where api = api and s = s and attempt = attempt and max_retries = max_retries,
      OF bb this] h
  show "get_states_from api bounds max_retries attempt s =
        (None, s\<lparr>fetch_calls := fetch_calls s @ [arg]\<rparr>)"
    by simp
next
  fix s
  show "get_states api bounds max_retries s =
          get_states (\<lambda>b n. as_no_data (api b n)) bounds max_retries s"
    unfolding get_states_def by (rule empty_like_no_data_from [OF refl])
next
  fix sv0 sv1
  assume "api arg 0 = Inr (Some sv0) \<and> states sv0 = [] \<and>
        api arg 1 = Inr (Some sv1) \<and> states sv1 \<noteq> [] \<and> 2 \<le> max_retries"
  then show "get_states api bounds max_retries io_start =
          (Some (states sv1), \<lparr> fetch_calls = [arg, arg], sleeps = [1] \<rparr>)"
    by (intro empty_then_data_run [where api = api, OF bb]) auto
qed

theorem empty_list_is_retried_witness:
  "bbox_of None = Inr None \<and>
   get_states empty_first_fetcher None 3 io_start =
     (Some [sample_state], \<lparr> fetch_calls = [None, None], sleeps = [1] \<rparr>) \<and>
   get_states empty_first_fetcher None 1 io_start =
     (None, \<lparr> fetch_calls = [None], sleeps = [] \<rparr>) \<and>
   get_states (\<lambda>b n. as_no_data (empty_first_fetcher b n)) None 3 io_start =
     (Some [sample_state], \<lparr> fetch_calls = [None, None], sleeps = [1] \<rparr>)"
proof -
  note t3 = empty_list_is_retried [OF bbox_of_None, where api = empty_first_fetcher and max_retries = 3]
  note t1 = empty_list_is_retried [OF bbox_of_None, where api = empty_first_fetcher and max_retries = 1]
  have first: "empty_first_fetcher None 0 = Inr (Some \<lparr> time = PInt 1700000000, states = [] \<rparr>)"
    and second: "empty_first_fetcher None 1 =
      Inr (Some \<lparr> time = PInt 1700000010, states = [sample_state] \<rparr>)"
    by (simp_all add: empty_first_fetcher_def)
  from t3 first second
  have a: "get_states empty_first_fetcher None 3 io_start =
     (Some [sample_state], \<lparr> fetch_calls = [None, None], sleeps = [1] \<rparr>)"
    by fastforce
  from t1 have "\<forall>attempt s sv.
        empty_first_fetcher None (length (fetch_calls s)) = Inr (Some sv) \<and> states sv = [] \<and>
        int attempt < 1 \<and> \<not> int attempt < 1 - 1 \<longrightarrow>
        get_states_from empty_first_fetcher None 1 attempt s =
        (None, s\<lparr>fetch_calls := fetch_calls s @ [None]\<rparr>)"
    by blast
  from this [rule_format, of io_start "\<lparr> time = PInt 1700000000, states = [] \<rparr>" 0] first
  have b: "get_states empty_first_fetcher None 1 io_start =
     (None, \<lparr> fetch_calls = [None], sleeps = [] \<rparr>)"
    by (simp add: get_states_def io_start_def)
  from t3 have "get_states empty_first_fetcher None 3 io_start =
      get_states (\<lambda>b n. as_no_data (empty_first_fetcher b n)) None 3 io_start"
    by blast
  with a b show ?thesis
    by (simp add: bbox_of_None)
qed

lemma snd_create_map:
  "snd (create_map api now_text region s) = snd (get_states api (bounds_get region) 3 s)"
  by (simp add: create_map_def split: prod.splits option.splits)

lemma bbox_of_europe:
  "bbox_of (bounds_get ''europe'') = Inr (Some (PFloat 35, PFloat 60, PFloat (- 15), PFloat 40))"
  by (simp add: bounds_get_def region_bounds_def bbox_of_def dict_item_def)

lemma bbox_of_world: "bbox_of (bounds_get ''world'') = Inr None"
  by (simp add: bounds_get_def region_bounds_def bbox_of_def)

lemma create_map_calls:
  assumes "bbox_of (bounds_get region) = Inr arg"
  shows "\<exists>n. 0 < n \<and> n \<le> 3 \<and>
           fetch_calls (snd (create_map api now_text region io_start)) = replicate n arg"
proof -
  from logs_grow [OF assms refl, where max_retries = 3 and attempt = 0 and api = api and s = io_start]
  show ?thesis
    by (auto simp: snd_create_map get_states_def io_start_def)
qed

text \<open>
  Claim C9: for the preset \<^verbatim>\<open>europe\<close> every call of the fetcher made by
  \<^verbatim>\<open>create_map\<close> carries the bounding box \<open>(35.0, 60.0, -15.0, 40.0)\<close>, in the
  order lamin, lamax, lomin, lomax; for the preset \<^verbatim>\<open>world\<close> every call
  carries no bounding box. In both cases at least one call is made (and at most
  three).
\<close>

theorem region_presets:
  "(\<exists>n. 0 < n \<and> n \<le> 3 \<and>
      fetch_calls (snd (create_map api now_text ''europe'' io_start)) =
        replicate n (Some (PFloat 35, PFloat 60, PFloat (- 15), PFloat 40))) \<and>
   (\<exists>n. 0 < n \<and> n \<le> 3 \<and>
      fetch_calls (snd (create_map api now_text ''world'' io_start)) = replicate n None)"
  using create_map_calls [OF bbox_of_europe] create_map_calls [OF bbox_of_world]
  by simp

lemma opensky_fetcher_returns: "\<exists>r. opensky_fetcher self clock net bbox n = Inr r"
  by (simp add: opensky_fetcher_def OpenSkyApi_get_states_def split: sum.splits)

text \<open>
  With the client of the program as the fetcher no call raises, so every sleep
  after a failed attempt follows the exponential formula.
\<close>

lemma opensky_backoff:
  assumes "bbox_of bounds = Inr arg"
    and "\<forall>j\<le>i. failed (opensky_fetcher self clock net arg j)"
    and "int i < max_retries - 1"
  shows "sleeps (snd (get_states (opensky_fetcher self clock net) bounds max_retries io_start)) ! i =
           min (2 ^ i) 60"
proof -
  obtain r where r: "opensky_fetcher self clock net arg i = Inr r"
    using opensky_fetcher_returns by blast
  from sleeps_of_failed_attempts [where api = "opensky_fetcher self clock net" and i = i, OF assms]
  obtain ext where
    "sleeps (snd (get_states (opensky_fetcher self clock net) bounds max_retries io_start)) =
       map (\<lambda>j. delay (opensky_fetcher self clock net arg j) j) [0..<Suc i] @ ext"
    by blast
  moreover have "(map (\<lambda>j. delay (opensky_fetcher self clock net arg j) j) [0..<Suc i] @ ext) ! i =
      delay (opensky_fetcher self clock net arg i) i"
    by (simp add: nth_append)
  ultimately show ?thesis
    using r by (simp add: delay_def)
qed

section \<open>Properties of the snapshot fetcher\<close>

text \<open>
  Claim C5: whatever the client (credentials), the query (bounding box, time,
  address filter) and the outcome of the HTTP request, \<^verbatim>\<open>OpenSkyApi.get_states\<close>
  returns and does not raise. It returns a snapshot only if the request gave a
  response with status 200; it returns \<^verbatim>\<open>None\<close> when the request raised
  (timeout, connection failure), when the status is not 200 (401 or any other),
  when decoding the body raised, and when the decoded body made the construction
  of the snapshot raise.
\<close>

theorem fetcher_never_raises:
  "\<exists>r. OpenSkyApi_get_states self now http time_secs icao24_arg bbox = Inr r \<and>
     (\<forall>sv. r = Some sv \<longrightarrow>
        (\<exists>resp. http (states_request self now time_secs icao24_arg bbox) = Inr resp \<and>
                status_code resp = 200)) \<and>
     (\<forall>e. http (states_request self now time_secs icao24_arg bbox) = Inl e \<longrightarrow> r = None) \<and>
     (\<forall>resp. http (states_request self now time_secs icao24_arg bbox) = Inr resp \<and>
             status_code resp \<noteq> 200 \<longrightarrow> r = None) \<and>
     (\<forall>resp e. http (states_request self now time_secs icao24_arg bbox) = Inr resp \<and>
             json resp = Inl e \<longrightarrow> r = None) \<and>
     (\<forall>resp body e. http (states_request self now time_secs icao24_arg bbox) = Inr resp \<and>
             json resp = Inr body \<and> StateVector_init body = Inl e \<longrightarrow> r = None)"
proof -
  let ?req = "states_request self now time_secs icao24_arg bbox"
  show ?thesis
  proof (cases "http ?req")
    case (Inl e)
    then show ?thesis
      by (simp add: OpenSkyApi_get_states_def get_states_try_def)
  next
    case (Inr resp)
    show ?thesis
    proof (cases "status_code resp = 200")
      case False
      with Inr show ?thesis
        by (simp add: OpenSkyApi_get_states_def get_states_try_def)
    next
      case True
      with Inr show ?thesis
        by (cases "json resp")
           (auto simp: OpenSkyApi_get_states_def get_states_try_def bind_err_def
              split: sum.splits)
    qed
  qed
qed

lemma State_init_twelve_fields: "State_init (PList twelve_fields) = Inr sample_state"
  by (simp add: twelve_fields_def sample_state_def State_init_def item_or_None_def)

lemma http_200_snapshot:
  "OpenSkyApi_get_states (OpenSkyApi_init None None) 1700000000 http_200 0 PNone None =
     Inr (Some \<lparr> time = PInt 1700000000, states = [sample_state] \<rparr>)"
  by (simp add: OpenSkyApi_get_states_def get_states_try_def http_200_def StateVector_init_def
      dict_item_def State_init_twelve_fields)

theorem fetcher_never_raises_witness:
  "OpenSkyApi_get_states (OpenSkyApi_init None None) 1700000000 http_401 0 PNone None = Inr None \<and>
   OpenSkyApi_get_states (OpenSkyApi_init None None) 1700000000 http_200 0 PNone None =
     Inr (Some \<lparr> time = PInt 1700000000, states = [sample_state] \<rparr>) \<and>
   status_code \<lparr> status_code = 200,
           json = Inr (PDict [(''time'', PInt 1700000000),
                              (''states'', PList [PList twelve_fields])]) \<rparr> = 200"
proof -
  let ?self = "OpenSkyApi_init None None"
  from fetcher_never_raises [of ?self 1700000000 http_401 0 PNone None]
  obtain r where r: "OpenSkyApi_get_states ?self 1700000000 http_401 0 PNone None = Inr r"
    and "\<forall>resp. http_401 (states_request ?self 1700000000 0 PNone None) = Inr resp \<and>
             status_code resp \<noteq> 200 \<longrightarrow> r = None"
    by blast
  then have "r = None"
    by (simp add: http_401_def)
  with r show ?thesis
    by (simp add: http_200_snapshot)
qed

section \<open>Properties of the presentation builder\<close>

lemma plot_states_filter:
  "plot_states sts =
     (map (\<lambda>st. (latitude st, longitude st, 1))
        (filter (\<lambda>st. truthy (latitude st) \<and> truthy (longitude st)) sts),
      map marker_of (filter (\<lambda>st. truthy (latitude st) \<and> truthy (longitude st)) sts))"
  by (induction sts) auto

text \<open>
  Claim C6 fails on the code. A record with latitude 0.0 and longitude 10.0 has
  both coordinates present, yet \<^verbatim>\<open>create_map\<close> emits no heat point and no
  marker for it: the test \<^verbatim>\<open>state.latitude and state.longitude\<close> takes the
  number 0 for a missing value. And for a record without origin country the
  popup carries \<^verbatim>\<open>None\<close> where the claim promises \<^verbatim>\<open>N/A\<close>: the origin is
  interpolated as it is.
\<close>

theorem equator_record_not_plotted:
  "latitude equator_state = PFloat 0 \<and> longitude equator_state = PFloat 10 \<and>
   (\<exists>pg. fst (create_map (fixed_fetcher [equator_state]) now_text ''world'' io_start) = Inr pg \<and>
      map_markers pg = [] \<and> map_heat pg = Some []) \<and>
   origin_country no_origin_state = PNone \<and>
   (\<exists>pg. fst (create_map (fixed_fetcher [no_origin_state]) now_text ''world'' io_start) = Inr pg \<and>
      map popup_origin (map_markers pg) = [PNone])"
  by (simp add: equator_state_def no_origin_state_def sample_state_def create_map_def
      get_states_def get_states_from.simps call_fetcher_def bbox_of_def bounds_get_def
      region_bounds_def fixed_fetcher_def found_states_def io_start_def render_def
      count_countries_def avg_altitude_def np_mean_def marker_of_def)

text \<open>
  Claim C7 fails on the code. For a record list in which no record has an
  altitude, \<^verbatim>\<open>numpy.mean\<close> is applied to the empty list and gives \<^verbatim>\<open>nan\<close>; the
  statistics text then reads \<^verbatim>\<open>nanm\<close> and not \<^verbatim>\<open>0m\<close>. The alternative
  \<^verbatim>\<open>else 0\<close> tests the record list, which is never empty at this point.
\<close>

theorem no_altitude_mean_is_nan:
  "geo_altitude no_altitude_state = PNone \<and>
   (\<exists>pg st. fst (create_map (fixed_fetcher [no_altitude_state]) now_text ''world'' io_start) = Inr pg \<and>
      stats pg = Real_time_statistics st \<and> total_aircraft st = 1 \<and>
      average_altitude st = ''nanm'')"
  by (simp add: no_altitude_state_def sample_state_def create_map_def
      get_states_def get_states_from.simps call_fetcher_def bbox_of_def bounds_get_def
      region_bounds_def fixed_fetcher_def found_states_def io_start_def render_def
      count_countries_def avg_altitude_def np_mean_def marker_of_def)



lemma avg_altitude_all_null:
  assumes "sts \<noteq> []" and "\<forall>st\<in>set sts. geo_altitude st = PNone"
  shows "avg_altitude sts = Inr NaN"
proof -
  from assms(2) have "filter (\<lambda>v. v \<noteq> PNone) (map geo_altitude sts) = []"
    by (induction sts) auto
  with assms(1) show ?thesis
    by (simp add: avg_altitude_def np_mean_def)
qed

text \<open>
  The example of the specification holds: for altitudes 1000, 2000 and
  \<^verbatim>\<open>None\<close> the text reads \<^verbatim>\<open>1500m\<close> and the count is 3.
\<close>

lemma np_mean_example: "np_mean [PInt 1000, PFloat 2000] = Inr (Finite 1500)"
  by (simp add: np_mean_def)

lemma format_1500: "format_0f (Finite 1500) = ''1500''"
  by code_simp

lemma statistics_example:
  "\<exists>pg st. fst (create_map
        (fixed_fetcher [sample_state\<lparr>geo_altitude := PInt 1000\<rparr>,
                        sample_state\<lparr>geo_altitude := PFloat 2000\<rparr>,
                        sample_state\<lparr>geo_altitude := PNone\<rparr>])
        now_text ''world'' io_start) = Inr pg \<and>
      stats pg = Real_time_statistics st \<and> total_aircraft st = 3 \<and>
      average_altitude st = ''1500m''"
  by (simp add: sample_state_def create_map_def
      get_states_def get_states_from.simps call_fetcher_def bbox_of_def bounds_get_def
      region_bounds_def fixed_fetcher_def found_states_def io_start_def render_def
      count_countries_def avg_altitude_def np_mean_def marker_of_def format_1500
      del: format_0f.simps)

end
